theory Spec2Isabelle
  imports Main
begin

section \<open>Data model of the group registry\<close>

text \<open>
  The models of \<^verbatim>\<open>groups-registry.component.ts\<close>. Classes that the component only
  reads are records with the fields it reads.
\<close>

record PageInfo =
  elementsPerPage :: nat
  totalElements :: nat
  totalPages :: nat
  currentPage :: nat

record 'a PaginatedList =
  pageInfo :: PageInfo
  page :: "'a list"

text \<open>\<^verbatim>\<open>buildPaginatedList(pageInfo, page)\<close>: the list with that page information and rows.\<close>

definition buildPaginatedList :: "PageInfo \<Rightarrow> 'a list \<Rightarrow> 'a PaginatedList" where
  "buildPaginatedList pi rows = \<lparr>pageInfo = pi, page = rows\<rparr>"

text \<open>
  \<^verbatim>\<open>RemoteData\<close>: the component reads \<^verbatim>\<open>hasSucceeded\<close>, \<^verbatim>\<open>errorMessage\<close> and
  \<^verbatim>\<open>payload\<close> (which may be undefined, \<open>None\<close>).
\<close>

record 'a RemoteData =
  hasSucceeded :: bool
  errorMessage :: string
  payload :: "'a option"

text \<open>
  \<^verbatim>\<open>Group\<close>: \<^verbatim>\<open>id\<close> (tested with \<^verbatim>\<open>hasValue\<close> before a deletion, so it may be absent),
  \<^verbatim>\<open>name\<close>, \<^verbatim>\<open>self\<close> and the three links \<^verbatim>\<open>_links.object.href\<close>,
  \<^verbatim>\<open>_links.subgroups.href\<close>, \<^verbatim>\<open>_links.epersons.href\<close>.
\<close>

record Group =
  group_id :: "string option"
  group_name :: string
  group_self :: string
  links_object :: string
  links_subgroups :: string
  links_epersons :: string

record EPerson =
  eperson_id :: string

record DSpaceObject =
  dso_uuid :: string

type_synonym NoContent = unit

record GroupDtoModel =
  ableToDelete :: bool
  group :: Group
  subgroups :: "Group PaginatedList option"
  epersons :: "EPerson PaginatedList option"

datatype FeatureID = CanDelete

text \<open>The argument \<^verbatim>\<open>data.query\<close> of \<^verbatim>\<open>search\<close>: the parameter is typed \<^verbatim>\<open>any\<close>.\<close>

datatype query_arg = Undefined | Null | Str string

section \<open>Observables\<close>

text \<open>
  An observable of a collaborator is represented by what it delivers to its subscriber:
  a value, an error, or nothing. The per-row lookups are read once
  (\<^verbatim>\<open>getFirstSucceededRemoteData\<close>, \<^verbatim>\<open>take(1)\<close>), so one delivery stands for them;
  the repeated deliveries of \<^verbatim>\<open>searchGroups\<close> are separate events of the component
  (see \<open>searchGroupsDelivers\<close>).
\<close>

datatype 'a observable = Emits 'a | Errors | Silent

definition observableOf :: "'a \<Rightarrow> 'a observable" where
  "observableOf v = Emits v"

text \<open>\<^verbatim>\<open>map(f)\<close>\<close>

definition map_op :: "('a \<Rightarrow> 'b) \<Rightarrow> 'a observable \<Rightarrow> 'b observable" where
  "map_op f src = (case src of Emits v \<Rightarrow> Emits (f v) | Errors \<Rightarrow> Errors | Silent \<Rightarrow> Silent)"

text \<open>\<^verbatim>\<open>catchError(() => handler)\<close>: an error of the source is replaced by the handler's observable.\<close>

definition catchError :: "'a observable \<Rightarrow> 'a observable \<Rightarrow> 'a observable" where
  "catchError handler src = (case src of Errors \<Rightarrow> handler | Emits v \<Rightarrow> Emits v | Silent \<Rightarrow> Silent)"

text \<open>\<^verbatim>\<open>switchMap(project)\<close> on one delivery of the source.\<close>

definition switchMap :: "('a \<Rightarrow> 'b observable) \<Rightarrow> 'a observable \<Rightarrow> 'b observable" where
  "switchMap project src = (case src of Emits v \<Rightarrow> project v | Errors \<Rightarrow> Errors | Silent \<Rightarrow> Silent)"

text \<open>
  \<^verbatim>\<open>combineLatest([a, b, c, d])\<close> of the four lookups of a row: the tuple of the four
  values once all four have delivered; an error of any of them is the error of the join.
\<close>

definition combineLatest4 ::
  "'a observable \<Rightarrow> 'b observable \<Rightarrow> 'c observable \<Rightarrow> 'd observable \<Rightarrow> ('a \<times> 'b \<times> 'c \<times> 'd) observable" where
  "combineLatest4 a b c d =
     (if a = Errors \<or> b = Errors \<or> c = Errors \<or> d = Errors then Errors
      else (case (a, b, c, d) of
              (Emits va, Emits vb, Emits vc, Emits vd) \<Rightarrow> Emits (va, vb, vc, vd)
            | _ \<Rightarrow> Silent))"

text \<open>
  \<^verbatim>\<open>combineLatest(array)\<close> over the rows of a page. An entry of the array is \<open>None\<close>
  where the mapping callback returned nothing (\<^verbatim>\<open>undefined\<close>): RxJS raises a
  \<^verbatim>\<open>TypeError\<close> when it subscribes to such an entry (\<^emph>\<open>You provided 'undefined' where a
  stream was expected\<close>), which is taken here as an error of the join: no array is ever
  delivered. On the empty array the join completes without a value. Otherwise the array
  of the values is delivered, in the order of the input and of the same length.
\<close>

definition delivered :: "'a observable option list \<Rightarrow> 'a list" where
  "delivered xs = List.map_filter (\<lambda>x. case x of Some (Emits v) \<Rightarrow> Some v | _ \<Rightarrow> None) xs"

definition combineLatest :: "'a observable option list \<Rightarrow> 'a list observable" where
  "combineLatest xs =
     (if xs = [] then Silent
      else if list_ex (\<lambda>x. x = None) xs then Errors
      else if list_ex (\<lambda>x. x = Some Errors) xs then Errors
      else if list_ex (\<lambda>x. x = Some Silent) xs then Silent
      else Emits (delivered xs))"

section \<open>Collaborators\<close>

text \<open>
  The injected services, as far as the component calls them. A data-service call that the
  component pipes through \<^verbatim>\<open>getFirstSucceededRemoteData()\<close> or
  \<^verbatim>\<open>getFirstCompletedRemoteData()\<close> (operators of \<^verbatim>\<open>core/shared/operators\<close>) is taken
  together with that operator: the field is what the piped observable delivers. A remote
  data that has not succeeded is a value that \<^verbatim>\<open>getFirstSucceededRemoteData()\<close> does not
  let through, so a lookup whose remote data fails delivers nothing (\<open>Silent\<close>); \<open>Errors\<close>
  is an error notification of the observable.
\<close>

record collaborators =
  isAuthorized :: "FeatureID \<Rightarrow> string option \<Rightarrow> bool observable"
  dso_findByHref :: "string \<Rightarrow> DSpaceObject RemoteData option observable"
  group_findAllByHref :: "string \<Rightarrow> Group PaginatedList RemoteData observable"
  eperson_findAllByHref :: "string \<Rightarrow> EPerson PaginatedList RemoteData observable"
  group_delete :: "string \<Rightarrow> NoContent RemoteData observable"
  getBrowseEndpoint :: "string observable"
  getGroupRegistryRouterLink :: string

text \<open>The calls that a page assembly makes to the data services.\<close>

datatype lookup =
  IsAuthorized FeatureID "string option"
  | DsoFindByHref string
  | GroupFindAllByHref string
  | EPersonFindAllByHref string

text \<open>\<^verbatim>\<open>translateService.get(key, params)\<close>\<close>

datatype translation = Translate string "(string \<times> string) list"

datatype notification =
  NotifySuccess translation
  | NotifyError translation translation

section \<open>Row lookups\<close>

text \<open>\<^verbatim>\<open>getMembers(group)\<close>\<close>

definition getMembers :: "collaborators \<Rightarrow> Group \<Rightarrow> lookup list \<times> EPerson PaginatedList RemoteData observable" where
  "getMembers env g =
     ([EPersonFindAllByHref (links_epersons g)], eperson_findAllByHref env (links_epersons g))"

text \<open>\<^verbatim>\<open>getSubgroups(group)\<close>\<close>

definition getSubgroups :: "collaborators \<Rightarrow> Group \<Rightarrow> lookup list \<times> Group PaginatedList RemoteData observable" where
  "getSubgroups env g =
     ([GroupFindAllByHref (links_subgroups g)], group_findAllByHref env (links_subgroups g))"

text \<open>
  \<^verbatim>\<open>hasLinkedDSO(group)\<close>: \<^verbatim>\<open>hasValue(rd) && hasValue(rd.payload)\<close> of the delivered
  remote data, and \<^verbatim>\<open>false\<close> when the lookup raises an error.
\<close>

definition hasLinkedDSO :: "collaborators \<Rightarrow> Group \<Rightarrow> lookup list \<times> bool observable" where
  "hasLinkedDSO env g =
     ([DsoFindByHref (links_object g)],
      catchError (observableOf False)
        (map_op (\<lambda>rd. case rd of None \<Rightarrow> False | Some r \<Rightarrow> payload r \<noteq> None)
           (dso_findByHref env (links_object g))))"

text \<open>
  The row of a group that is not in \<^verbatim>\<open>deletedGroupsIds\<close> (lines 148 to 164): the join
  of the four lookups, mapped to a \<^verbatim>\<open>GroupDtoModel\<close>.
\<close>

definition groupDto :: "collaborators \<Rightarrow> Group \<Rightarrow> lookup list \<times> GroupDtoModel observable" where
  "groupDto env g =
     (let authorized = ([IsAuthorized CanDelete (Some (group_self g))],
                        isAuthorized env CanDelete (Some (group_self g)));
          linked = hasLinkedDSO env g;
          subs = getSubgroups env g;
          members = getMembers env g
      in (fst authorized @ fst linked @ fst subs @ fst members,
          map_op (\<lambda>(isAuth, hasLinked, sg, m).
                    \<lparr>ableToDelete = (isAuth \<and> \<not> hasLinked), group = g,
                     subgroups = payload sg, epersons = payload m\<rparr>)
            (combineLatest4 (snd authorized) (snd linked) (snd subs) (snd members))))"

text \<open>\<^verbatim>\<open>this.deletedGroupsIds.includes(group.id)\<close>\<close>

definition includes_id :: "string list \<Rightarrow> string option \<Rightarrow> bool" where
  "includes_id ids i = (case i of None \<Rightarrow> False | Some s \<Rightarrow> s \<in> set ids)"

text \<open>
  The callback of \<^verbatim>\<open>groups.page.map\<close> (lines 146 to 165): for a group whose id is in
  \<^verbatim>\<open>deletedGroupsIds\<close> the callback returns nothing, and the array holds \<^verbatim>\<open>undefined\<close> there.
\<close>

definition rowObservable :: "collaborators \<Rightarrow> string list \<Rightarrow> Group \<Rightarrow> (lookup list \<times> GroupDtoModel observable) option" where
  "rowObservable env deleted g =
     (if \<not> includes_id deleted (group_id g) then Some (groupDto env g) else None)"

text \<open>
  The function given to \<^verbatim>\<open>switchMap\<close> (lines 142 to 168): the assembly of one page of
  groups, with the lookups it issues.
\<close>

definition assemble :: "collaborators \<Rightarrow> string list \<Rightarrow> Group PaginatedList \<Rightarrow> lookup list \<times> GroupDtoModel PaginatedList observable" where
  "assemble env deleted groups =
     (if length (page groups) = 0 then ([], observableOf (buildPaginatedList (pageInfo groups) []))
      else (let rows = map (rowObservable env deleted) (page groups)
            in (concat (map (\<lambda>r. case r of None \<Rightarrow> [] | Some x \<Rightarrow> fst x) rows),
                map_op (\<lambda>dtos. buildPaginatedList (pageInfo groups) dtos)
                  (combineLatest (map (map_option snd) rows)))))"

section \<open>The component\<close>

text \<open>
  The fields of \<^verbatim>\<open>GroupsRegistryComponent\<close>, then what its collaborators have been
  told. A \<^verbatim>\<open>BehaviorSubject\<close> is its current value: \<open>groupsDto\<close> is \<open>None\<close> for the
  initial \<^verbatim>\<open>{}\<close>, \<open>pageInfoState\<close> is \<open>None\<close> for the initial \<^verbatim>\<open>undefined\<close>. A
  \<^verbatim>\<open>Subscription\<close> is a number, given out by \<open>nextSubscription\<close>;
  \<open>openSubscriptions\<close> are the subscriptions that have not been unsubscribed.
\<close>

record component =
  config_pageSize :: nat
  config_currentPage :: nat
  groupsDto :: "GroupDtoModel PaginatedList option"
  deletedGroupsIds :: "string list"
  pageInfoState :: "PageInfo option"
  searchForm_query :: string
  searching :: bool
  currentSearchQuery :: string
  searchSub :: "nat option"
  subs :: "nat list"
  nextSubscription :: nat
  openSubscriptions :: "nat list"
  navigations :: "string list"
  searchRequests :: "(nat \<times> string \<times> nat \<times> nat) list"
  deleteRequests :: "string list"
  notifications :: "notification list"
  staleHrefs :: "string list"

definition messagePrefix :: string where
  "messagePrefix = ''admin.access-control.groups.''"

text \<open>The field initialisers and the constructor.\<close>

definition initial :: component where
  "initial =
     \<lparr>config_pageSize = 5, config_currentPage = 1, groupsDto = None, deletedGroupsIds = [],
      pageInfoState = None, searchForm_query = [], searching = False,
      currentSearchQuery = [], searchSub = None, subs = [], nextSubscription = 0,
      openSubscriptions = [], navigations = [], searchRequests = [], deleteRequests = [],
      notifications = [], staleHrefs = []\<rparr>"

text \<open>
  \<^verbatim>\<open>String.prototype.trim\<close> on the characters of \<open>char\<close>: tab, line feed, vertical tab,
  form feed, carriage return, space and no-break space are white space.
\<close>

definition isWhiteSpace :: "char \<Rightarrow> bool" where
  "isWhiteSpace c = (c \<in> set [CHR 0x09, CHR 0x0A, CHR 0x0B, CHR 0x0C, CHR 0x0D, CHR 0x20, CHR 0xA0])"

definition trim :: "string \<Rightarrow> string" where
  "trim s = rev (dropWhile isWhiteSpace (rev (dropWhile isWhiteSpace s)))"

text \<open>\<^verbatim>\<open>sub.unsubscribe()\<close>\<close>

definition unsubscribe :: "nat \<Rightarrow> component \<Rightarrow> component" where
  "unsubscribe sub st = st\<lparr>openSubscriptions := removeAll sub (openSubscriptions st)\<rparr>"

text \<open>
  \<^verbatim>\<open>search(data)\<close>, lines 124 to 175, with \<open>query\<close> for \<^verbatim>\<open>data.query\<close>. The call of
  \<^verbatim>\<open>searchGroups\<close> is recorded with the new subscription, the trimmed query, the current
  page and the page size; what the subscription delivers later is \<open>searchGroupsDelivers\<close>.
\<close>

definition search :: "collaborators \<Rightarrow> query_arg \<Rightarrow> component \<Rightarrow> component" where
  "search env query st =
     (let st1 = st\<lparr>searching := True\<rparr>;
          st2 = (case query of
                   Str q \<Rightarrow>
                     if currentSearchQuery st1 \<noteq> q
                     then st1\<lparr>navigations := navigations st1 @ [getGroupRegistryRouterLink env],
                              currentSearchQuery := q,
                              config_currentPage := 1\<rparr>
                     else st1
                 | _ \<Rightarrow> st1);
          st3 = (case searchSub st2 of
                   Some old \<Rightarrow> (unsubscribe old st2)\<lparr>subs := filter (\<lambda>sub. sub \<noteq> old) (subs st2)\<rparr>
                 | None \<Rightarrow> st2);
          new = nextSubscription st3;
          st4 = st3\<lparr>searchRequests := searchRequests st3 @
                       [(new, trim (currentSearchQuery st3), config_currentPage st3, config_pageSize st3)],
                    nextSubscription := Suc new,
                    openSubscriptions := openSubscriptions st3 @ [new],
                    searchSub := Some new\<rparr>
      in st4\<lparr>subs := subs st4 @ [new]\<rparr>)"

text \<open>The function given to \<^verbatim>\<open>subscribe\<close>, lines 169 to 173.\<close>

definition searchNext :: "GroupDtoModel PaginatedList \<Rightarrow> component \<Rightarrow> component" where
  "searchNext v st = st\<lparr>groupsDto := Some v, pageInfoState := Some (pageInfo v), searching := False\<rparr>"

text \<open>
  The operators between \<^verbatim>\<open>searchGroups(...)\<close> and \<^verbatim>\<open>subscribe\<close> (lines 140 to 168) on
  one delivery of \<^verbatim>\<open>searchGroups(...).pipe(getAllSucceededRemoteDataPayload())\<close>: a page
  of groups, an error, or nothing (\<open>Silent\<close>, as for a remote data that has not succeeded,
  which the operator does not let through).
\<close>

definition searchPipe :: "collaborators \<Rightarrow> string list \<Rightarrow> Group PaginatedList observable \<Rightarrow> GroupDtoModel PaginatedList observable" where
  "searchPipe env deleted signal = switchMap (\<lambda>groups. snd (assemble env deleted groups)) signal"

text \<open>
  A delivery on the subscription \<open>sub\<close> of \<^verbatim>\<open>search\<close>. A subscription that is no longer
  open receives nothing. Otherwise a value that comes out of the pipe is given to the
  subscriber. The subscriber has a next-callback only: an error of the gateway, or an
  error of a row lookup that \<^verbatim>\<open>switchMap\<close> forwards, reaches no code of the component and
  ends the subscription, so that nothing is received on it afterwards. The delivery
  stands for the moment at which the rows of the page are complete: the join of the row
  lookups is evaluated with the collaborators and the \<^verbatim>\<open>deletedGroupsIds\<close> of that moment.
\<close>

definition searchGroupsDelivers :: "collaborators \<Rightarrow> nat \<Rightarrow> Group PaginatedList observable \<Rightarrow> component \<Rightarrow> component" where
  "searchGroupsDelivers env sub signal st =
     (if sub \<notin> set (openSubscriptions st) then st
      else (case searchPipe env (deletedGroupsIds st) signal of
              Emits v \<Rightarrow> searchNext v st
            | Errors \<Rightarrow> st\<lparr>openSubscriptions := removeAll sub (openSubscriptions st)\<rparr>
            | Silent \<Rightarrow> st))"

text \<open>\<^verbatim>\<open>onPageChange(event)\<close>\<close>

definition onPageChange :: "collaborators \<Rightarrow> nat \<Rightarrow> component \<Rightarrow> component" where
  "onPageChange env event st =
     (let st1 = st\<lparr>config_currentPage := event\<rparr>
      in search env (Str (currentSearchQuery st1)) st1)"

text \<open>\<^verbatim>\<open>ngOnInit()\<close>\<close>

definition ngOnInit :: "collaborators \<Rightarrow> component \<Rightarrow> component" where
  "ngOnInit env st = search env (Str (currentSearchQuery st)) st"

text \<open>\<^verbatim>\<open>clearFormAndResetResult()\<close>\<close>

definition clearFormAndResetResult :: "collaborators \<Rightarrow> component \<Rightarrow> component" where
  "clearFormAndResetResult env st = search env (Str []) (st\<lparr>searchForm_query := []\<rparr>)"

text \<open>
  \<^verbatim>\<open>reset()\<close>: the first value of \<^verbatim>\<open>getBrowseEndpoint()\<close> is given to
  \<^verbatim>\<open>requestService.setStaleByHrefSubstring\<close>.
\<close>

definition reset :: "collaborators \<Rightarrow> component \<Rightarrow> component" where
  "reset env st =
     (case getBrowseEndpoint env of
        Emits href \<Rightarrow> st\<lparr>staleHrefs := staleHrefs st @ [href]\<rparr>
      | Errors \<Rightarrow> st
      | Silent \<Rightarrow> st)"

text \<open>The function given to \<^verbatim>\<open>subscribe\<close> in \<^verbatim>\<open>deleteGroup\<close>, lines 183 to 193.\<close>

definition deleteGroupNext :: "collaborators \<Rightarrow> GroupDtoModel \<Rightarrow> string \<Rightarrow> NoContent RemoteData \<Rightarrow> component \<Rightarrow> component" where
  "deleteGroupNext env dto gid rd st =
     (if hasSucceeded rd
      then reset env
             (st\<lparr>deletedGroupsIds := deletedGroupsIds st @ [gid],
                 notifications := notifications st @
                   [NotifySuccess (Translate (messagePrefix @ ''notification.deleted.success'')
                                     [(''name'', group_name (group dto))])]\<rparr>)
      else st\<lparr>notifications := notifications st @
                [NotifyError
                   (Translate (messagePrefix @ ''notification.deleted.failure.title'')
                      [(''name'', group_name (group dto))])
                   (Translate (messagePrefix @ ''notification.deleted.failure.content'')
                      [(''cause'', errorMessage rd)])]\<rparr>)"

text \<open>
  \<^verbatim>\<open>deleteGroup(group)\<close>: nothing without an id; otherwise the deletion is requested and
  the first completed remote data, if one is delivered, goes to the subscriber.
\<close>

definition deleteGroup :: "collaborators \<Rightarrow> GroupDtoModel \<Rightarrow> component \<Rightarrow> component" where
  "deleteGroup env dto st =
     (case group_id (group dto) of
        None \<Rightarrow> st
      | Some gid \<Rightarrow>
          (let st1 = st\<lparr>deleteRequests := deleteRequests st @ [gid]\<rparr>
           in (case group_delete env gid of
                 Emits rd \<Rightarrow> deleteGroupNext env dto gid rd st1
               | Errors \<Rightarrow> st1
               | Silent \<Rightarrow> st1)))"

text \<open>\<^verbatim>\<open>cleanupSubscribes()\<close>, called by \<^verbatim>\<open>ngOnDestroy()\<close>.\<close>

definition cleanupSubscribes :: "component \<Rightarrow> component" where
  "cleanupSubscribes st = fold unsubscribe (subs st) st"

definition ngOnDestroy :: "component \<Rightarrow> component" where
  "ngOnDestroy st = cleanupSubscribes st"

section \<open>Runs of the component\<close>

text \<open>
  What can happen to the component: a call of one of its methods, or a delivery on a
  search subscription. Each event comes with the collaborators as they answer at that time.
\<close>

datatype event =
  NgOnInit
  | OnPageChange nat
  | Search query_arg
  | ClearFormAndResetResult
  | DeleteGroup GroupDtoModel
  | SearchGroupsDelivers nat "Group PaginatedList observable"
  | NgOnDestroy

fun step :: "collaborators \<Rightarrow> event \<Rightarrow> component \<Rightarrow> component" where
  "step env NgOnInit st = ngOnInit env st"
| "step env (OnPageChange n) st = onPageChange env n st"
| "step env (Search q) st = search env q st"
| "step env ClearFormAndResetResult st = clearFormAndResetResult env st"
| "step env (DeleteGroup dto) st = deleteGroup env dto st"
| "step env (SearchGroupsDelivers sub signal) st = searchGroupsDelivers env sub signal st"
| "step env NgOnDestroy st = ngOnDestroy st"

fun run :: "(collaborators \<times> event) list \<Rightarrow> component \<Rightarrow> component" where
  "run [] st = st"
| "run (x # xs) st = run xs (step (fst x) (snd x) st)"






section \<open>A registry with two groups\<close>

text \<open>
  The scenario of the specification: the gateway returns the groups A and B; the actor
  may delete A and not B, no group has a linked object, and the deletion of B succeeds
  while the deletion of any other group fails.
\<close>

definition ex_pageInfo :: PageInfo where
  "ex_pageInfo = \<lparr>elementsPerPage = 5, totalElements = 2, totalPages = 1, currentPage = 1\<rparr>"

definition ex_groupA :: Group where
  "ex_groupA =
     \<lparr>group_id = Some ''A'', group_name = ''Administrator'', group_self = ''/groups/A'',
      links_object = ''/groups/A/object'', links_subgroups = ''/groups/A/subgroups'',
      links_epersons = ''/groups/A/epersons''\<rparr>"

definition ex_groupB :: Group where
  "ex_groupB =
     \<lparr>group_id = Some ''B'', group_name = ''Reviewers'', group_self = ''/groups/B'',
      links_object = ''/groups/B/object'', links_subgroups = ''/groups/B/subgroups'',
      links_epersons = ''/groups/B/epersons''\<rparr>"

definition ex_page :: "Group PaginatedList" where
  "ex_page = \<lparr>pageInfo = ex_pageInfo, page = [ex_groupA, ex_groupB]\<rparr>"

definition ex_noSubgroups :: "Group PaginatedList RemoteData" where
  "ex_noSubgroups = \<lparr>hasSucceeded = True, errorMessage = [], payload = None\<rparr>"

definition ex_noMembers :: "EPerson PaginatedList RemoteData" where
  "ex_noMembers = \<lparr>hasSucceeded = True, errorMessage = [], payload = None\<rparr>"

definition ex_services :: collaborators where
  "ex_services =
     \<lparr>isAuthorized = (\<lambda>feature url. Emits (url = Some ''/groups/A'')),
      dso_findByHref = (\<lambda>href. Emits (Some \<lparr>hasSucceeded = True, errorMessage = [], payload = None\<rparr>)),
      group_findAllByHref = (\<lambda>href. Emits ex_noSubgroups),
      eperson_findAllByHref = (\<lambda>href. Emits ex_noMembers),
      group_delete = (\<lambda>gid. Emits \<lparr>hasSucceeded = (gid = ''B''), errorMessage = ''Forbidden'', payload = None\<rparr>),
      getBrowseEndpoint = Emits ''/api/eperson/groups'',
      getGroupRegistryRouterLink = ''/access-control/groups''\<rparr>"

text \<open>The same services with a linked-object lookup that raises an error.\<close>

definition ex_services_objectError :: collaborators where
  "ex_services_objectError = ex_services\<lparr>dso_findByHref := (\<lambda>href. Errors)\<rparr>"

text \<open>The same services with a linked-object lookup whose remote data does not succeed.\<close>

definition ex_services_objectFailed :: collaborators where
  "ex_services_objectFailed = ex_services\<lparr>dso_findByHref := (\<lambda>href. Silent)\<rparr>"

definition ex_dtoA :: GroupDtoModel where
  "ex_dtoA = \<lparr>ableToDelete = True, group = ex_groupA, subgroups = None, epersons = None\<rparr>"

definition ex_dtoB :: GroupDtoModel where
  "ex_dtoB = \<lparr>ableToDelete = False, group = ex_groupB, subgroups = None, epersons = None\<rparr>"

text \<open>The component after \<^verbatim>\<open>ngOnInit\<close> and the delivery of the page with A and B.\<close>

definition ex_listed :: component where
  "ex_listed =
     run [(ex_services, NgOnInit), (ex_services, SearchGroupsDelivers 0 (Emits ex_page))] initial"

section \<open>One live search cycle\<close>


section \<open>Joins\<close>




section \<open>The invariant of the search cycles\<close>










section \<open>A submission and the deliveries after it\<close>












lemma ex_listed_eq:
  "ex_listed =
     initial\<lparr>groupsDto := Some \<lparr>pageInfo = ex_pageInfo, page = [ex_dtoA, ex_dtoB]\<rparr>,
             pageInfoState := Some ex_pageInfo, searching := False, searchSub := Some 0,
             subs := [0], nextSubscription := Suc 0, openSubscriptions := [0],
             searchRequests := [(0, [], 1, 5)]\<rparr>"
  by (simp add: ex_listed_def ngOnInit_def search_def initial_def trim_def Let_def
      searchGroupsDelivers_def searchPipe_def switchMap_def assemble_def ex_page_def rowObservable_def
      includes_id_def ex_groupA_def ex_groupB_def groupDto_def hasLinkedDSO_def
      getSubgroups_def getMembers_def ex_services_def map_op_def catchError_def
      observableOf_def combineLatest4_def combineLatest_def delivered_def map_filter_simps
      buildPaginatedList_def searchNext_def ex_dtoA_def ex_dtoB_def ex_noSubgroups_def
      ex_noMembers_def)

section \<open>Search cycles\<close>



text \<open>
  Claim C2, as amended. When the gateway search fails, that is when the piped
  \<^verbatim>\<open>searchGroups\<close> observable raises an error or delivers no succeeded page, no rows are
  published and the published view, rows and page information, is retained; the failure
  is not surfaced, since the component issues no notification, and the search is not
  retried, since no gateway request is made. An error ends the subscription of the cycle.
\<close>

theorem C2_failed_search_publishes_nothing:
  assumes "signal = Errors \<or> signal = Silent"
  shows "groupsDto (searchGroupsDelivers env sub signal st) = groupsDto st \<and>
         pageInfoState (searchGroupsDelivers env sub signal st) = pageInfoState st \<and>
         notifications (searchGroupsDelivers env sub signal st) = notifications st \<and>
         searchRequests (searchGroupsDelivers env sub signal st) = searchRequests st \<and>
         (signal = Errors \<longrightarrow> sub \<notin> set (openSubscriptions (searchGroupsDelivers env sub signal st)))"
  using assms by (auto simp add: searchGroupsDelivers_def searchPipe_def switchMap_def)

text \<open>
  The listed groups are searched again on page 2 and the gateway answers with an error:
  the rows A and B stay published, nothing is notified, and the subscription is closed.
\<close>

theorem C2_failed_search_witness:
  "(Errors = (Errors :: Group PaginatedList observable) \<or> Errors = (Silent :: Group PaginatedList observable)) \<and>
   groupsDto (searchGroupsDelivers ex_services 1 Errors (onPageChange ex_services 2 ex_listed)) =
     Some \<lparr>pageInfo = ex_pageInfo, page = [ex_dtoA, ex_dtoB]\<rparr> \<and>
   notifications (searchGroupsDelivers ex_services 1 Errors (onPageChange ex_services 2 ex_listed)) = [] \<and>
   1 \<notin> set (openSubscriptions (searchGroupsDelivers ex_services 1 Errors (onPageChange ex_services 2 ex_listed)))"
proof -
  have h: "Errors = (Errors :: Group PaginatedList observable) \<or> Errors = (Silent :: Group PaginatedList observable)"
    by simp
  have b: "groupsDto (onPageChange ex_services 2 ex_listed) =
             Some \<lparr>pageInfo = ex_pageInfo, page = [ex_dtoA, ex_dtoB]\<rparr> \<and>
           notifications (onPageChange ex_services 2 ex_listed) = []"
    by (simp add: onPageChange_def search_def Let_def unsubscribe_def ex_listed_eq initial_def)
  from C2_failed_search_publishes_nothing[OF h, of ex_services 1 "onPageChange ex_services 2 ex_listed"]
  show ?thesis using b by simp
qed

text \<open>
  The claim as stated fails: after the initial search, an error of the gateway leaves the
  busy flag set and surfaces no notification.
\<close>

theorem C2_busy_stays_set_counterexample:
  "searching (searchGroupsDelivers ex_services 0 Errors (ngOnInit ex_services initial)) \<and>
   notifications (searchGroupsDelivers ex_services 0 Errors (ngOnInit ex_services initial)) = []"
  by (simp add: searchGroupsDelivers_def searchPipe_def switchMap_def ngOnInit_def search_def
      initial_def Let_def)

section \<open>Page assembly\<close>





text \<open>
  Claim C5, as amended. When the linked-object lookup of a group ends in an error
  notification, \<^verbatim>\<open>hasLinkedDSO\<close> delivers \<^verbatim>\<open>false\<close> instead of the error; with an
  authorized actor and delivered subgroups and members, the row of the group is delivered
  with \<^verbatim>\<open>ableToDelete\<close> true.
\<close>

theorem C5_linked_object_error_absorbed:
  assumes "dso_findByHref env (links_object g) = Errors"
    and "isAuthorized env CanDelete (Some (group_self g)) = Emits True"
    and "group_findAllByHref env (links_subgroups g) = Emits sg"
    and "eperson_findAllByHref env (links_epersons g) = Emits m"
  shows "snd (hasLinkedDSO env g) = Emits False \<and>
         snd (groupDto env g) =
           Emits \<lparr>ableToDelete = True, group = g, subgroups = payload sg, epersons = payload m\<rparr>"
  using assms
  by (simp add: hasLinkedDSO_def groupDto_def getSubgroups_def getMembers_def catchError_def
      map_op_def observableOf_def combineLatest4_def Let_def)

theorem C5_linked_object_error_witness:
  "dso_findByHref ex_services_objectError (links_object ex_groupA) = Errors \<and>
   snd (hasLinkedDSO ex_services_objectError ex_groupA) = Emits False \<and>
   snd (groupDto ex_services_objectError ex_groupA) = Emits ex_dtoA"
proof -
  have h1: "dso_findByHref ex_services_objectError (links_object ex_groupA) = Errors"
    by (simp add: ex_services_objectError_def)
  have h2: "isAuthorized ex_services_objectError CanDelete (Some (group_self ex_groupA)) = Emits True"
    by (simp add: ex_services_objectError_def ex_services_def ex_groupA_def)
  have h3: "group_findAllByHref ex_services_objectError (links_subgroups ex_groupA) = Emits ex_noSubgroups"
    by (simp add: ex_services_objectError_def ex_services_def)
  have h4: "eperson_findAllByHref ex_services_objectError (links_epersons ex_groupA) = Emits ex_noMembers"
    by (simp add: ex_services_objectError_def ex_services_def)
  from C5_linked_object_error_absorbed[OF h1 h2 h3 h4]
  show ?thesis using h1 by (simp add: ex_dtoA_def ex_noSubgroups_def ex_noMembers_def)
qed

text \<open>
  The claim as stated, for every failure of the lookup, fails: a lookup whose remote data
  does not succeed raises no error for \<^verbatim>\<open>catchError\<close>, and with an authorized actor
  neither the flag, nor the row of the group, nor the page is delivered.
\<close>

theorem C5_failed_lookup_not_absorbed_counterexample:
  "dso_findByHref ex_services_objectFailed (links_object ex_groupA) = Silent \<and>
   isAuthorized ex_services_objectFailed CanDelete (Some (group_self ex_groupA)) = Emits True \<and>
   snd (hasLinkedDSO ex_services_objectFailed ex_groupA) = Silent \<and>
   snd (groupDto ex_services_objectFailed ex_groupA) = Silent \<and>
   snd (assemble ex_services_objectFailed [] ex_page) = Silent"
  by (simp add: ex_services_objectFailed_def ex_services_def ex_groupA_def ex_groupB_def
      hasLinkedDSO_def groupDto_def getSubgroups_def getMembers_def map_op_def catchError_def
      observableOf_def combineLatest4_def combineLatest_def assemble_def ex_page_def
      rowObservable_def includes_id_def Let_def)

section \<open>Deletion\<close>

text \<open>
  Claim C6, as amended. When the deletion of a group with an id succeeds and the browse
  endpoint of the groups is delivered, the component records the deletion request, appends
  the id to \<^verbatim>\<open>deletedGroupsIds\<close>, notifies the success with the name of the group and
  sets the requests under that endpoint stale. Nothing else changes: the component makes
  no call of \<^verbatim>\<open>search\<close>, so no new gateway request is recorded and the busy flag, the
  query, the page and the open search subscription are as before.
\<close>

theorem C6_successful_deletion:
  assumes "group_id (group dto) = Some gid"
    and "group_delete env gid = Emits rd"
    and "hasSucceeded rd"
    and "getBrowseEndpoint env = Emits href"
  shows "deleteGroup env dto st =
           st\<lparr>deleteRequests := deleteRequests st @ [gid],
              deletedGroupsIds := deletedGroupsIds st @ [gid],
              notifications := notifications st @
                [NotifySuccess
                   (Translate ''admin.access-control.groups.notification.deleted.success''
                      [(''name'', group_name (group dto))])],
              staleHrefs := staleHrefs st @ [href]\<rparr>"
  using assms by (simp add: deleteGroup_def deleteGroupNext_def messagePrefix_def reset_def)

theorem C6_successful_deletion_witness:
  "group_id (group ex_dtoB) = Some ''B'' \<and>
   getBrowseEndpoint ex_services = Emits ''/api/eperson/groups'' \<and>
   deleteGroup ex_services ex_dtoB ex_listed =
     ex_listed\<lparr>deleteRequests := [''B''], deletedGroupsIds := [''B''],
               notifications := [NotifySuccess
                  (Translate ''admin.access-control.groups.notification.deleted.success''
                     [(''name'', ''Reviewers'')])],
               staleHrefs := [''/api/eperson/groups'']\<rparr>"
proof -
  have h1: "group_id (group ex_dtoB) = Some ''B''" by (simp add: ex_dtoB_def ex_groupB_def)
  have h2: "group_delete ex_services ''B'' = Emits \<lparr>hasSucceeded = True, errorMessage = ''Forbidden'', payload = None\<rparr>"
    by (simp add: ex_services_def)
  have h3: "hasSucceeded \<lparr>hasSucceeded = True, errorMessage = ''Forbidden'', payload = (None :: NoContent option)\<rparr>"
    by simp
  have h4: "getBrowseEndpoint ex_services = Emits ''/api/eperson/groups''" by (simp add: ex_services_def)
  have e: "deleteRequests ex_listed = [] \<and> deletedGroupsIds ex_listed = [] \<and>
           notifications ex_listed = [] \<and> staleHrefs ex_listed = []"
    by (simp add: ex_listed_eq initial_def)
  have n: "group_name (group ex_dtoB) = ''Reviewers''" by (simp add: ex_dtoB_def ex_groupB_def)
  from C6_successful_deletion[OF h1 h2 h3 h4, of ex_listed]
  show ?thesis using h1 h4 e n by simp
qed

text \<open>
  The claim as stated fails: after the successful deletion of B from the listed page, the
  only gateway request is still the one of the initial search, and the busy flag is not set.
\<close>

theorem C6_no_new_search_counterexample:
  "deletedGroupsIds (deleteGroup ex_services ex_dtoB ex_listed) = [''B''] \<and>
   staleHrefs (deleteGroup ex_services ex_dtoB ex_listed) = [''/api/eperson/groups''] \<and>
   searchRequests (deleteGroup ex_services ex_dtoB ex_listed) = searchRequests ex_listed \<and>
   searchRequests ex_listed = [(0, [], 1, 5)] \<and>
   searchSub (deleteGroup ex_services ex_dtoB ex_listed) = searchSub ex_listed \<and>
   \<not> searching (deleteGroup ex_services ex_dtoB ex_listed)"
  by (simp add: deleteGroup_def deleteGroupNext_def reset_def ex_dtoB_def ex_groupB_def
      ex_services_def ex_listed_eq initial_def)

text \<open>
  Claim C7. When the deletion of a group with an id fails, the component records the
  deletion request and notifies the failure, the title with the name of the group and the
  content with the error message of the remote data. Every field of the component is as
  before: \<^verbatim>\<open>deletedGroupsIds\<close> is not extended and no request is set stale.
\<close>

theorem C7_failed_deletion:
  assumes "group_id (group dto) = Some gid"
    and "group_delete env gid = Emits rd"
    and "\<not> hasSucceeded rd"
  shows "deleteGroup env dto st =
           st\<lparr>deleteRequests := deleteRequests st @ [gid],
              notifications := notifications st @
                [NotifyError
                   (Translate ''admin.access-control.groups.notification.deleted.failure.title''
                      [(''name'', group_name (group dto))])
                   (Translate ''admin.access-control.groups.notification.deleted.failure.content''
                      [(''cause'', errorMessage rd)])]\<rparr> \<and>
         deletedGroupsIds (deleteGroup env dto st) = deletedGroupsIds st \<and>
         staleHrefs (deleteGroup env dto st) = staleHrefs st \<and>
         searchRequests (deleteGroup env dto st) = searchRequests st \<and>
         groupsDto (deleteGroup env dto st) = groupsDto st"
  using assms by (simp add: deleteGroup_def deleteGroupNext_def messagePrefix_def)

theorem C7_failed_deletion_witness:
  "group_id (group ex_dtoA) = Some ''A'' \<and>
   deleteGroup ex_services ex_dtoA ex_listed =
     ex_listed\<lparr>deleteRequests := [''A''],
               notifications := [NotifyError
                  (Translate ''admin.access-control.groups.notification.deleted.failure.title''
                     [(''name'', ''Administrator'')])
                  (Translate ''admin.access-control.groups.notification.deleted.failure.content''
                     [(''cause'', ''Forbidden'')])]\<rparr> \<and>
   deletedGroupsIds (deleteGroup ex_services ex_dtoA ex_listed) = []"
proof -
  have h1: "group_id (group ex_dtoA) = Some ''A''" by (simp add: ex_dtoA_def ex_groupA_def)
  have h2: "group_delete ex_services ''A'' = Emits \<lparr>hasSucceeded = False, errorMessage = ''Forbidden'', payload = None\<rparr>"
    by (simp add: ex_services_def)
  have h3: "\<not> hasSucceeded \<lparr>hasSucceeded = False, errorMessage = ''Forbidden'', payload = (None :: NoContent option)\<rparr>"
    by simp
  have e: "deleteRequests ex_listed = [] \<and> deletedGroupsIds ex_listed = [] \<and>
           notifications ex_listed = []"
    by (simp add: ex_listed_eq initial_def)
  have n: "group_name (group ex_dtoA) = ''Administrator''" by (simp add: ex_dtoA_def ex_groupA_def)
  from C7_failed_deletion[OF h1 h2 h3, of ex_listed]
  show ?thesis using h1 e n by simp
qed

section \<open>Submitting a search\<close>

text \<open>
  Claim C8. A search with a query text that differs from the current query records the
  new query, sets the current page to 1 and navigates to the registry route; a search
  with the current query text keeps the query and the page and does not navigate. In both
  cases the busy flag is set and a gateway request is made on a new subscription, with the
  trimmed query, the page and the page size that the component then holds.
\<close>

theorem C8_search_resets_page_iff_query_changed:
  "(if q \<noteq> currentSearchQuery st
    then currentSearchQuery (search env (Str q) st) = q \<and>
         config_currentPage (search env (Str q) st) = 1 \<and>
         navigations (search env (Str q) st) = navigations st @ [getGroupRegistryRouterLink env]
    else currentSearchQuery (search env (Str q) st) = currentSearchQuery st \<and>
         config_currentPage (search env (Str q) st) = config_currentPage st \<and>
         navigations (search env (Str q) st) = navigations st) \<and>
   searching (search env (Str q) st) \<and>
   searchSub (search env (Str q) st) = Some (nextSubscription st) \<and>
   nextSubscription st \<in> set (openSubscriptions (search env (Str q) st)) \<and>
   searchRequests (search env (Str q) st) = searchRequests st @
     [(nextSubscription st, trim (currentSearchQuery (search env (Str q) st)),
       config_currentPage (search env (Str q) st), config_pageSize st)]"
  by (auto simp add: search_def Let_def unsubscribe_def split: option.splits)

text \<open>On page 3 of the listed groups: a new query goes to page 1, the same query stays on page 3.\<close>

theorem C8_search_resets_page_witness:
  "config_currentPage (search ex_services (Str '' alice '') (ex_listed\<lparr>config_currentPage := 3\<rparr>)) = 1 \<and>
   searchRequests (search ex_services (Str '' alice '') (ex_listed\<lparr>config_currentPage := 3\<rparr>)) =
     [(0, [], 1, 5), (1, ''alice'', 1, 5)] \<and>
   config_currentPage (search ex_services (Str []) (ex_listed\<lparr>config_currentPage := 3\<rparr>)) = 3 \<and>
   searchRequests (search ex_services (Str []) (ex_listed\<lparr>config_currentPage := 3\<rparr>)) =
     [(0, [], 1, 5), (1, [], 3, 5)]"
proof -
  let ?st = "ex_listed\<lparr>config_currentPage := 3\<rparr>"
  have f: "currentSearchQuery ?st = [] \<and> config_currentPage ?st = 3 \<and> nextSubscription ?st = 1 \<and>
           searchRequests ?st = [(0, [], 1, 5)] \<and> config_pageSize ?st = 5"
    by (simp add: ex_listed_eq initial_def)
  have t: "trim '' alice '' = ''alice'' \<and> trim [] = []"
    by (simp add: trim_def isWhiteSpace_def)
  from C8_search_resets_page_iff_query_changed[of "'' alice ''" ?st ex_services]
  have a: "config_currentPage (search ex_services (Str '' alice '') ?st) = 1 \<and>
           searchRequests (search ex_services (Str '' alice '') ?st) = [(0, [], 1, 5), (1, ''alice'', 1, 5)]"
    using f t by simp
  from C8_search_resets_page_iff_query_changed[of "[]" ?st ex_services]
  have b: "config_currentPage (search ex_services (Str []) ?st) = 3 \<and>
           searchRequests (search ex_services (Str []) ?st) = [(0, [], 1, 5), (1, [], 3, 5)]"
    using f t by simp
  show ?thesis using a b by simp
qed

text \<open>
  Claim C9. For a page without groups the assembly delivers at once the empty list of rows
  with the page information of the gateway, and makes no lookup.
\<close>

theorem C9_empty_page_short_circuit:
  "assemble env deleted \<lparr>pageInfo = pi, page = []\<rparr> = ([], Emits \<lparr>pageInfo = pi, page = []\<rparr>)"
  by (simp add: assemble_def observableOf_def buildPaginatedList_def)

theorem C9_empty_page_witness:
  "assemble ex_services [''B''] \<lparr>pageInfo = ex_pageInfo, page = []\<rparr> =
     ([], Emits \<lparr>pageInfo = ex_pageInfo, page = []\<rparr>)"
  by (rule C9_empty_page_short_circuit)

text \<open>
  Claim C10. A search whose query is \<^verbatim>\<open>null\<close> or \<^verbatim>\<open>undefined\<close> keeps the current query
  and the current page and does not navigate; it sets the busy flag and makes a gateway
  request on a new subscription with the trimmed current query at the current page.
\<close>

theorem C10_search_without_query:
  assumes "query = Null \<or> query = Undefined"
  shows "currentSearchQuery (search env query st) = currentSearchQuery st \<and>
         config_currentPage (search env query st) = config_currentPage st \<and>
         navigations (search env query st) = navigations st \<and>
         searching (search env query st) \<and>
         searchSub (search env query st) = Some (nextSubscription st) \<and>
         nextSubscription st \<in> set (openSubscriptions (search env query st)) \<and>
         searchRequests (search env query st) = searchRequests st @
           [(nextSubscription st, trim (currentSearchQuery st), config_currentPage st, config_pageSize st)]"
  using assms by (auto simp add: search_def Let_def unsubscribe_def split: option.splits)

theorem C10_search_without_query_witness:
  "(Undefined = Null \<or> Undefined = Undefined) \<and>
   searching (search ex_services Undefined ex_listed) \<and>
   navigations (search ex_services Undefined ex_listed) = [] \<and>
   searchRequests (search ex_services Undefined ex_listed) = [(0, [], 1, 5), (1, [], 1, 5)]"
proof -
  have h: "Undefined = Null \<or> Undefined = Undefined" by simp
  have f: "currentSearchQuery ex_listed = [] \<and> config_currentPage ex_listed = 1 \<and>
           nextSubscription ex_listed = 1 \<and> navigations ex_listed = [] \<and>
           searchRequests ex_listed = [(0, [], 1, 5)] \<and> config_pageSize ex_listed = 5"
    by (simp add: ex_listed_eq initial_def)
  have t: "trim [] = []" by (simp add: trim_def)
  from C10_search_without_query[OF h, of ex_services ex_listed]
  show ?thesis using f t by simp
qed

end
